theory Spec2Isabelle
  imports Main "HOL-Library.Multiset"
begin

section \<open>Data model of \<^verbatim>\<open>user-state.svelte.ts\<close>\<close>

text \<open>
  A JavaScript string is modelled as a \<^typ>\<open>string\<close>, each \<^typ>\<open>char\<close> standing for one
  code unit below 256. A value of type \<^verbatim>\<open>T | null\<close> is a \<^typ>\<open>'a option\<close> with
  \<^const>\<open>None\<close> for \<^verbatim>\<open>null\<close>. The numbers of the program (book ids, ratings, HTTP
  status codes, timestamps in milliseconds) are integers, so \<^typ>\<open>int\<close>; fractional
  ratings and \<^verbatim>\<open>NaN\<close> ratings are outside the model.
\<close>

record Book =
  author :: "string option"
  cover_image :: "string option"
  created_at :: string
  description :: "string option"
  finished_reading_on :: "string option"
  genre :: "string option"
  id_book :: int
  rating :: "int option"
  started_reading_on :: "string option"
  title :: string
  user_id :: string

text \<open>
  The session and the backend client are opaque to this file: the code only tests them
  against \<^verbatim>\<open>null\<close>. Of the user only \<^verbatim>\<open>id\<close> is read.
\<close>

datatype Session = Session string

datatype SupabaseClient = SupabaseClient

record User =
  id_user :: string

record UserStateProps =
  props_session :: "Session option"
  props_supabase :: "SupabaseClient option"
  props_user :: "User option"

record UserState =
  session :: "Session option"
  supabase :: "SupabaseClient option"
  user :: "User option"
  allBooks :: "Book list"
  userName :: "string option"

subsection \<open>JavaScript truthiness of the tested values\<close>

text \<open>\<^verbatim>\<open>number | null\<close>: \<^verbatim>\<open>null\<close> and \<^verbatim>\<open>0\<close> are falsy.\<close>

definition truthy_number :: "int option \<Rightarrow> bool" where
  "truthy_number v = (case v of None \<Rightarrow> False | Some n \<Rightarrow> n \<noteq> 0)"

text \<open>\<^verbatim>\<open>string | null\<close>: \<^verbatim>\<open>null\<close> and the empty string are falsy.\<close>

definition truthy_string :: "string option \<Rightarrow> bool" where
  "truthy_string v = (case v of None \<Rightarrow> False | Some s \<Rightarrow> s \<noteq> [])"

text \<open>\<^verbatim>\<open>ToNumber\<close> of a \<^verbatim>\<open>number | null\<close>: \<^verbatim>\<open>null\<close> converts to \<^verbatim>\<open>0\<close>.\<close>

definition toNumber :: "int option \<Rightarrow> int" where
  "toNumber v = (case v of None \<Rightarrow> 0 | Some n \<Rightarrow> n)"

text \<open>\<^verbatim>\<open>v || 0\<close> on a \<^verbatim>\<open>number | null\<close>.\<close>

definition orZero :: "int option \<Rightarrow> int" where
  "orZero v = (case v of None \<Rightarrow> 0 | Some n \<Rightarrow> if n \<noteq> 0 then n else 0)"

subsection \<open>The string methods the code calls\<close>

definition startsWith :: "string \<Rightarrow> string \<Rightarrow> bool" where
  "startsWith s searchString = (take (length searchString) s = searchString)"

fun includes_string :: "string \<Rightarrow> string \<Rightarrow> bool" where
  "includes_string [] searchString = (searchString = [])"
| "includes_string (c # cs) searchString =
     (startsWith (c # cs) searchString \<or> includes_string cs searchString)"

text \<open>
  \<^verbatim>\<open>s.split(separator)\<close> for a string separator: the pieces between the occurrences of
  the separator, found from left to right without overlap; an empty separator splits
  into code units. \<open>splitFrom separator piece rest\<close> scans \<open>rest\<close> with the piece read
  so far.
\<close>

function splitFrom :: "string \<Rightarrow> string \<Rightarrow> string \<Rightarrow> string list" where
  "splitFrom separator piece [] = [piece]"
| "splitFrom separator piece (c # cs) =
     (if startsWith (c # cs) separator
      then piece # splitFrom separator [] (drop (length separator - 1) cs)
      else splitFrom separator (piece @ [c]) cs)"
  by pat_completeness auto
termination
  by (relation "measure (\<lambda>(separator, piece, rest). length rest)") auto

definition split_string :: "string \<Rightarrow> string \<Rightarrow> string list" where
  "split_string s separator =
     (if separator = [] then map (\<lambda>c. [c]) s else splitFrom separator [] s)"

text \<open>\<^verbatim>\<open>xs[i]\<close>, which is \<^verbatim>\<open>undefined\<close> out of range.\<close>

definition element :: "'a list \<Rightarrow> nat \<Rightarrow> 'a option" where
  "element xs i = (if i < length xs then Some (xs ! i) else None)"

text \<open>
  \<^verbatim>\<open>trim\<close> strips white space and line terminators from both ends. Below 256 these
  are the code units 9 to 13, 32 and 160.
\<close>

definition isWhiteSpace :: "char \<Rightarrow> bool" where
  "isWhiteSpace c =
     (c \<in> set [CHR 0x09, CHR 0x0A, CHR 0x0B, CHR 0x0C, CHR 0x0D, CHR 0x20, CHR 0xA0])"

definition trim :: "string \<Rightarrow> string" where
  "trim s = rev (dropWhile isWhiteSpace (rev (dropWhile isWhiteSpace s)))"

subsection \<open>\<^verbatim>\<open>Array.prototype.toSorted\<close> and \<^verbatim>\<open>reduce\<close>\<close>

text \<open>
  \<^verbatim>\<open>toSorted(cmp)\<close> is a stable sort: \<^verbatim>\<open>a\<close> stays before \<^verbatim>\<open>b\<close> unless
  \<^verbatim>\<open>cmp(a, b) > 0\<close>. For a consistent comparator the language fixes the result, and
  the stable insertion sort below computes it. \<open>insertSorted cmp x ys\<close> puts \<open>x\<close>, which
  stood before every element of \<open>ys\<close> in the input, in front of the first \<open>y\<close> with
  \<open>cmp x y \<le> 0\<close>.
\<close>

fun insertSorted :: "('a \<Rightarrow> 'a \<Rightarrow> int) \<Rightarrow> 'a \<Rightarrow> 'a list \<Rightarrow> 'a list" where
  "insertSorted cmp x [] = [x]"
| "insertSorted cmp x (y # ys) =
     (if cmp x y \<le> 0 then x # y # ys else y # insertSorted cmp x ys)"

fun toSorted :: "('a \<Rightarrow> 'a \<Rightarrow> int) \<Rightarrow> 'a list \<Rightarrow> 'a list" where
  "toSorted cmp [] = []"
| "toSorted cmp (x # xs) = insertSorted cmp x (toSorted cmp xs)"

text \<open>
  \<^verbatim>\<open>xs.reduce(f)\<close> with no initial value: a \<^verbatim>\<open>TypeError\<close> on the empty array,
  otherwise the fold from the first element over the rest.
\<close>

datatype js_error = TypeError

fun reduce :: "('a \<Rightarrow> 'a \<Rightarrow> 'a) \<Rightarrow> 'a list \<Rightarrow> js_error + 'a" where
  "reduce f [] = Inl TypeError"
| "reduce f (x # xs) = Inr (foldl f x xs)"

subsection \<open>The object \<^verbatim>\<open>genreCounts\<close>\<close>

text \<open>
  \<^verbatim>\<open>genreCounts\<close> starts as \<^verbatim>\<open>{}\<close>: an ordinary object whose prototype is
  \<^verbatim>\<open>Object.prototype\<close>. Its own properties are kept in creation order as an association
  list. A property value is a count or \<^verbatim>\<open>NaN\<close>: incrementing a member inherited from
  \<^verbatim>\<open>Object.prototype\<close> (a function) stores \<^verbatim>\<open>NaN\<close>.
\<close>

datatype count = Num nat | NaN

type_synonym genreCounts = "(string \<times> count) list"

fun setProperty :: "genreCounts \<Rightarrow> string \<Rightarrow> count \<Rightarrow> genreCounts" where
  "setProperty [] key v = [(key, v)]"
| "setProperty ((k, w) # props) key v =
     (if k = key then (k, v) # props else (k, w) # setProperty props key v)"

text \<open>
  The data properties of \<^verbatim>\<open>Object.prototype\<close> (all writable, all functions), and its
  one accessor \<^verbatim>\<open>__proto__\<close>, whose getter returns the prototype (truthy) and whose
  setter ignores a number.
\<close>

definition objectPrototypeMethods :: "string list" where
  "objectPrototypeMethods =
     [''constructor'', ''hasOwnProperty'', ''isPrototypeOf'', ''propertyIsEnumerable'',
      ''toLocaleString'', ''toString'', ''valueOf'', ''__defineGetter__'',
      ''__defineSetter__'', ''__lookupGetter__'', ''__lookupSetter__'']"

text \<open>
  \<^verbatim>\<open>Object.keys\<close> lists the own keys that are array indices (canonical decimal numerals
  below \<open>2\<^sup>3\<^sup>2 - 1\<close>) in ascending numeric order, then the other keys in creation order.
\<close>

definition isDigit :: "char \<Rightarrow> bool" where
  "isDigit c = (48 \<le> (of_char c :: nat) \<and> (of_char c :: nat) \<le> 57)"

definition digitsValue :: "string \<Rightarrow> nat" where
  "digitsValue s = foldl (\<lambda>n c. 10 * n + (of_char c - 48)) 0 s"

definition isArrayIndex :: "string \<Rightarrow> bool" where
  "isArrayIndex key =
     (key \<noteq> [] \<and> list_all isDigit key \<and> (key = ''0'' \<or> hd key \<noteq> CHR ''0'') \<and>
      digitsValue key < 4294967295)"

definition Object_keys :: "genreCounts \<Rightarrow> string list" where
  "Object_keys obj =
     (let keys = map fst obj
      in sort_key digitsValue (filter isArrayIndex keys) @
         filter (\<lambda>key. \<not> isArrayIndex key) keys)"

text \<open>\<^verbatim>\<open>x > y\<close> on two property reads: false when either is \<^verbatim>\<open>NaN\<close> or \<^verbatim>\<open>undefined\<close>.\<close>

fun greater :: "count option \<Rightarrow> count option \<Rightarrow> bool" where
  "greater (Some (Num m)) (Some (Num n)) = (n < m)"
| "greater _ _ = False"

subsection \<open>Replies of the backend\<close>

text \<open>
  The backend is not part of the program. Each operation takes the replies of its
  awaited calls as arguments; the requests it sends are not recorded. A reply of the
  database client carries \<^verbatim>\<open>error\<close>, \<^verbatim>\<open>data\<close> and \<^verbatim>\<open>status\<close>; an error is an
  object, so it is truthy exactly when it is not \<^verbatim>\<open>null\<close>, and so is \<^verbatim>\<open>data\<close>
  (an array or a row object). What \<^verbatim>\<open>console.log\<close> prints is not modelled.
\<close>

datatype BackendError = BackendError string

record 'a PostgrestResponse =
  error :: "BackendError option"
  data :: "'a option"
  status :: int

record UserNameRow =
  name :: "string option"

section \<open>The class \<^verbatim>\<open>UserState\<close>\<close>

subsection \<open>Asynchronous calls\<close>

text \<open>
  The methods that talk to the backend are \<^verbatim>\<open>async\<close>. A call runs to its first
  \<^verbatim>\<open>await\<close>; the reply resumes it later, in the state the object is in by then, which
  other calls may have changed meanwhile. So a method is modelled in pieces: the call up
  to its first \<^verbatim>\<open>await\<close>, and one continuation for each \<^verbatim>\<open>await\<close>, a function of the
  state at that moment and of the reply. A piece gives the state it leaves and how it
  ended: suspended at the next \<^verbatim>\<open>await\<close>, returned, or thrown. A suspended call is a
  \<open>Task\<close> that holds the local values it still needs. \<^verbatim>\<open>logout\<close> assigns no field and
  is left out.
\<close>

text \<open>
  \<^verbatim>\<open>Partial<UpdatableBookFields>\<close>: each field is absent (\<^const>\<open>None\<close>) or present with
  a value of the field's type. \<^verbatim>\<open>id\<close>, \<^verbatim>\<open>user_id\<close> and \<^verbatim>\<open>created_at\<close> are not
  fields of it.
\<close>

record UpdateObject =
  upd_author :: "string option option"
  upd_cover_image :: "string option option"
  upd_description :: "string option option"
  upd_finished_reading_on :: "string option option"
  upd_genre :: "string option option"
  upd_rating :: "int option option"
  upd_started_reading_on :: "string option option"
  upd_title :: "string option"

text \<open>
  \<open>AwaitQueries userId\<close>: \<^verbatim>\<open>fetchUserData\<close> at the \<^verbatim>\<open>await\<close> of the two queries, with its
  constant \<^verbatim>\<open>userId\<close>. \<open>AwaitSignedUrls books row client\<close>: \<^verbatim>\<open>fetchUserData\<close> at the
  \<^verbatim>\<open>await\<close> of the mapped books, with the data of the two replies and \<^verbatim>\<open>this.supabase\<close>
  as the callbacks read it when they started. \<open>AwaitUpdate bookId updateObject\<close>:
  \<^verbatim>\<open>updateBook\<close> at its \<^verbatim>\<open>await\<close>. The last three: \<^verbatim>\<open>uploadBookCover\<close> at the
  \<^verbatim>\<open>await\<close> of the upload, of the update of the book's row, and of the signed URL.
\<close>

datatype Task =
    AwaitQueries string
  | AwaitSignedUrls "Book list" UserNameRow "SupabaseClient option"
  | AwaitUpdate int UpdateObject
  | AwaitUpload int
  | AwaitCoverUpdate int
  | AwaitCoverSignedUrl int

datatype Outcome = Suspended Task | Returned | Threw js_error

subsection \<open>\<^verbatim>\<open>fetchUserData\<close>, \<^verbatim>\<open>updateState\<close> and the constructor\<close>

text \<open>
  \<^verbatim>\<open>fetchUserData\<close> up to \<^verbatim>\<open>await Promise.all([...])\<close>: it returns at once without a
  user or a client, and else sends the two queries for \<^verbatim>\<open>this.user.id\<close>.
\<close>

definition fetchUserData :: "UserState \<Rightarrow> UserState \<times> Outcome" where
  "fetchUserData s =
     (case user s of
        None \<Rightarrow> (s, Returned)
      | Some u \<Rightarrow>
          if supabase s = None then (s, Returned)
          else (s, Suspended (AwaitQueries (id_user u))))"

text \<open>
  \<^verbatim>\<open>fetchUserData\<close> resumed with the two replies, in the state \<open>s\<close> of that moment. On
  an error or missing data it logs and returns. Otherwise it maps the books; each
  callback runs to its own \<^verbatim>\<open>await\<close> and reads \<^verbatim>\<open>this.supabase\<close> on the way, and the
  method waits for all of them. No field is assigned here.
\<close>

definition fetchUserData_replied ::
  "UserState \<Rightarrow> Book list PostgrestResponse \<Rightarrow> UserNameRow PostgrestResponse \<Rightarrow>
   UserState \<times> Outcome" where
  "fetchUserData_replied s booksResponse userNamesResponse =
     (if error booksResponse \<noteq> None \<or> data booksResponse = None \<or>
         error userNamesResponse \<noteq> None \<or> data userNamesResponse = None
      then (s, Returned)
      else
        (case (data booksResponse, data userNamesResponse) of
           (Some books, Some row) \<Rightarrow> (s, Suspended (AwaitSignedUrls books row (supabase s)))
         | _ \<Rightarrow> (s, Returned)))"

text \<open>
  The callback of \<^verbatim>\<open>booksResponse.data.map\<close> for the book at position \<open>i\<close>, from its
  start to its end. \<open>client\<close> is \<^verbatim>\<open>this.supabase\<close> as the callback read it.
  \<open>createSignedUrl i filePath\<close> is the \<^verbatim>\<open>signedUrl\<close> of the \<^verbatim>\<open>data\<close> of the reply to
  that book's \<^verbatim>\<open>createSignedUrl(filePath, 3600)\<close>, \<^const>\<open>None\<close> when \<^verbatim>\<open>data\<close> is
  \<^verbatim>\<open>null\<close>; \<open>filePath\<close> is \<^const>\<open>None\<close> when \<^verbatim>\<open>split(bucketPath)[1]\<close> is
  \<^verbatim>\<open>undefined\<close>. The callback touches no field of the object.
\<close>

definition signCoverImage ::
  "string \<Rightarrow> SupabaseClient option \<Rightarrow> (nat \<Rightarrow> string option \<Rightarrow> string option) \<Rightarrow>
   nat \<times> Book \<Rightarrow> Book" where
  "signCoverImage PUBLIC_SUPABASE_URL client createSignedUrl ib =
     (case ib of (i, book) \<Rightarrow>
       (case cover_image book of
          None \<Rightarrow> book
        | Some cover \<Rightarrow>
            if cover \<noteq> [] \<and> startsWith cover PUBLIC_SUPABASE_URL \<and> client \<noteq> None
            then
              (let bucketPath = PUBLIC_SUPABASE_URL @ ''/storage/v1/object/public/book-covers/'';
                   filePath = element (split_string cover bucketPath) 1
               in case createSignedUrl i filePath of
                    None \<Rightarrow> book
                  | Some signedUrl \<Rightarrow> book\<lparr>cover_image := Some signedUrl\<rparr>)
            else book))"

text \<open>
  \<^verbatim>\<open>fetchUserData\<close> resumed when all callbacks have ended, in the state \<open>s\<close> of that
  moment: the two assignments, to \<^verbatim>\<open>allBooks\<close> and to \<^verbatim>\<open>userName\<close>.
\<close>

definition fetchUserData_signed ::
  "string \<Rightarrow> UserState \<Rightarrow> Book list \<Rightarrow> UserNameRow \<Rightarrow> SupabaseClient option \<Rightarrow>
   (nat \<Rightarrow> string option \<Rightarrow> string option) \<Rightarrow> UserState \<times> Outcome" where
  "fetchUserData_signed PUBLIC_SUPABASE_URL s books row client createSignedUrl =
     (s\<lparr>allBooks :=
          map (signCoverImage PUBLIC_SUPABASE_URL client createSignedUrl) (enumerate 0 books),
        userName := name row\<rparr>,
      Returned)"

text \<open>
  \<^verbatim>\<open>updateState\<close> assigns the three fields and calls \<^verbatim>\<open>fetchUserData\<close> without
  awaiting it: it ends where that call suspends or returns.
\<close>

definition updateState :: "UserState \<Rightarrow> UserStateProps \<Rightarrow> UserState \<times> Outcome" where
  "updateState s props =
     fetchUserData
       (s\<lparr>session := props_session props, supabase := props_supabase props,
          user := props_user props\<rparr>)"

text \<open>The field initialisers; the constructor calls \<^verbatim>\<open>updateState\<close> on them.\<close>

definition initialState :: UserState where
  "initialState =
     \<lparr>session = None, supabase = None, user = None, allBooks = [], userName = None\<rparr>"

subsection \<open>Derived views\<close>

text \<open>
  \<^verbatim>\<open>getHighestRatedBooks\<close>: \<^verbatim>\<open>filter((book) => book.rating)\<close>, then
  \<^verbatim>\<open>toSorted((a, z) => z.rating! - a.rating!)\<close>, then \<^verbatim>\<open>slice(0, 9)\<close>.
\<close>

definition getHighestRatedBooks :: "UserState \<Rightarrow> Book list" where
  "getHighestRatedBooks s =
     take 9 (toSorted (\<lambda>a z. toNumber (rating z) - toNumber (rating a))
       (filter (\<lambda>book. truthy_number (rating book)) (allBooks s)))"




text \<open>
  \<^verbatim>\<open>getFavoriteGenre\<close>. \<open>countToken\<close> is the statement
  \<^verbatim>\<open>if (!genreCounts[t]) { genreCounts[t] = 1 } else { genreCounts[t]++ }\<close>: the read
  \<^verbatim>\<open>genreCounts[t]\<close> finds an own property, else a member of \<^verbatim>\<open>Object.prototype\<close>,
  else \<^verbatim>\<open>undefined\<close>. \<open>countGenre\<close> is the body of the inner \<^verbatim>\<open>forEach\<close> and
  \<open>countBook\<close> the body of the outer one.
\<close>

definition countToken :: "genreCounts \<Rightarrow> string \<Rightarrow> genreCounts" where
  "countToken genreCounts token =
     (case map_of genreCounts token of
        Some (Num n) \<Rightarrow>
          if n = 0 then setProperty genreCounts token (Num 1)
          else setProperty genreCounts token (Num (n + 1))
      | Some NaN \<Rightarrow> setProperty genreCounts token (Num 1)
      | None \<Rightarrow>
          if token = ''__proto__'' then genreCounts
          else if token \<in> set objectPrototypeMethods
          then setProperty genreCounts token NaN
          else setProperty genreCounts token (Num 1))"

definition countGenre :: "genreCounts \<Rightarrow> string \<Rightarrow> genreCounts" where
  "countGenre genreCounts genreToken =
     (let trimmedGenre = trim genreToken
      in if trimmedGenre \<noteq> [] then countToken genreCounts trimmedGenre else genreCounts)"

definition countBook :: "genreCounts \<Rightarrow> Book \<Rightarrow> genreCounts" where
  "countBook genreCounts book =
     (let genres =
            (case genre book of
               None \<Rightarrow> []
             | Some g \<Rightarrow> if g \<noteq> [] then split_string g '','' else [])
      in foldl countGenre genreCounts genres)"

text \<open>The reducer \<^verbatim>\<open>(a, b) => genreCounts[a] > genreCounts[b] ? a : b\<close>.\<close>

definition moreCommon :: "genreCounts \<Rightarrow> string \<Rightarrow> string \<Rightarrow> string" where
  "moreCommon genreCounts a b =
     (if greater (map_of genreCounts a) (map_of genreCounts b) then a else b)"

definition getFavoriteGenre :: "UserState \<Rightarrow> js_error + string" where
  "getFavoriteGenre s =
     (if length (allBooks s) = 0 then Inr []
      else
        (let genreCounts = foldl countBook [] (allBooks s)
         in case reduce (moreCommon genreCounts) (Object_keys genreCounts) of
              Inl e \<Rightarrow> Inl e
            | Inr mostCommonGenre \<Rightarrow>
                Inr (if mostCommonGenre \<noteq> [] then mostCommonGenre else [])))"

text \<open>
  \<^verbatim>\<open>getBooksFromFavoriteGenre\<close>: an exception of \<^verbatim>\<open>getFavoriteGenre\<close> propagates;
  \<^verbatim>\<open>book.genre?.includes(_)\<close> is \<^verbatim>\<open>undefined\<close>, so falsy, on a \<^verbatim>\<open>null\<close> genre.
\<close>

definition getBooksFromFavoriteGenre :: "UserState \<Rightarrow> js_error + Book list" where
  "getBooksFromFavoriteGenre s =
     (case getFavoriteGenre s of
        Inl e \<Rightarrow> Inl e
      | Inr mostCommonGenre \<Rightarrow>
          Inr (toSorted (\<lambda>a z. orZero (rating z) - orZero (rating a))
                (filter
                  (\<lambda>book. case genre book of
                             None \<Rightarrow> False
                           | Some g \<Rightarrow> includes_string g mostCommonGenre)
                  (allBooks s))))"

definition getBookById :: "UserState \<Rightarrow> int \<Rightarrow> Book option" where
  "getBookById s bookId = find (\<lambda>book. id_book book = bookId) (allBooks s)"

subsection \<open>\<^verbatim>\<open>updateBook\<close> and \<^verbatim>\<open>uploadBookCover\<close>\<close>

text \<open>\<^verbatim>\<open>{ ...book, ...updateObject }\<close>: a present field of the update replaces the book's.\<close>

definition spread :: "Book \<Rightarrow> UpdateObject \<Rightarrow> Book" where
  "spread book updateObject =
     book\<lparr>author := (case upd_author updateObject of None \<Rightarrow> author book | Some v \<Rightarrow> v),
          cover_image :=
            (case upd_cover_image updateObject of None \<Rightarrow> cover_image book | Some v \<Rightarrow> v),
          description :=
            (case upd_description updateObject of None \<Rightarrow> description book | Some v \<Rightarrow> v),
          finished_reading_on :=
            (case upd_finished_reading_on updateObject of
               None \<Rightarrow> finished_reading_on book | Some v \<Rightarrow> v),
          genre := (case upd_genre updateObject of None \<Rightarrow> genre book | Some v \<Rightarrow> v),
          rating := (case upd_rating updateObject of None \<Rightarrow> rating book | Some v \<Rightarrow> v),
          started_reading_on :=
            (case upd_started_reading_on updateObject of
               None \<Rightarrow> started_reading_on book | Some v \<Rightarrow> v),
          title := (case upd_title updateObject of None \<Rightarrow> title book | Some v \<Rightarrow> v)\<rparr>"

text \<open>
  \<^verbatim>\<open>updateBook\<close> from the call to the end, its reply arriving before anything else
  happens to the object. \<open>reply\<close> is the awaited reply to
  \<^verbatim>\<open>from("books").update(updateObject).eq("id", bookId)\<close>.
\<close>

definition updateBook ::
  "UserState \<Rightarrow> int \<Rightarrow> UpdateObject \<Rightarrow> unit PostgrestResponse \<Rightarrow> UserState" where
  "updateBook s bookId updateObject reply =
     (if supabase s = None then s
      else if status reply = 204 \<and> error reply = None
      then s\<lparr>allBooks :=
               map (\<lambda>book. if id_book book = bookId then spread book updateObject else book)
                 (allBooks s)\<rparr>
      else s)"

text \<open>
  The two pieces of \<^verbatim>\<open>updateBook\<close>: the call up to its \<^verbatim>\<open>await\<close>, and the
  continuation, which maps over the \<^verbatim>\<open>allBooks\<close> of the moment the reply arrives.
\<close>

definition updateBook_call :: "UserState \<Rightarrow> int \<Rightarrow> UpdateObject \<Rightarrow> UserState \<times> Outcome" where
  "updateBook_call s bookId updateObject =
     (if supabase s = None then (s, Returned)
      else (s, Suspended (AwaitUpdate bookId updateObject)))"

definition updateBook_replied ::
  "UserState \<Rightarrow> int \<Rightarrow> UpdateObject \<Rightarrow> unit PostgrestResponse \<Rightarrow> UserState \<times> Outcome" where
  "updateBook_replied s bookId updateObject reply =
     (if status reply = 204 \<and> error reply = None
      then (s\<lparr>allBooks :=
                map (\<lambda>book. if id_book book = bookId then spread book updateObject else book)
                  (allBooks s)\<rparr>,
            Returned)
      else (s, Returned))"

text \<open>
  \<^verbatim>\<open>uploadBookCover\<close>, in four pieces. The file and the storage path only go into the
  requests. After the first \<^verbatim>\<open>await\<close> the method reads \<^verbatim>\<open>this.supabase.storage\<close>
  again without a test, which throws a \<^verbatim>\<open>TypeError\<close> if the client has become
  \<^verbatim>\<open>null\<close> meanwhile. \<open>uploadError\<close> is the \<^verbatim>\<open>error\<close> of the upload's reply,
  \<open>updateReply\<close> the reply to the update of the book's row, \<open>signedUrl\<close> the
  \<^verbatim>\<open>data?.signedUrl\<close> of the reply to \<^verbatim>\<open>createSignedUrl\<close> (\<^const>\<open>None\<close> when \<^verbatim>\<open>data\<close>
  is \<^verbatim>\<open>null\<close>).
\<close>

definition uploadBookCover :: "UserState \<Rightarrow> int \<Rightarrow> UserState \<times> Outcome" where
  "uploadBookCover s bookId =
     (if user s = None \<or> supabase s = None then (s, Returned)
      else (s, Suspended (AwaitUpload bookId)))"

definition uploadBookCover_uploaded ::
  "UserState \<Rightarrow> int \<Rightarrow> BackendError option \<Rightarrow> UserState \<times> Outcome" where
  "uploadBookCover_uploaded s bookId uploadError =
     (if uploadError \<noteq> None then (s, Returned)
      else if supabase s = None then (s, Threw TypeError)
      else (s, Suspended (AwaitCoverUpdate bookId)))"

definition uploadBookCover_updated ::
  "UserState \<Rightarrow> int \<Rightarrow> unit PostgrestResponse \<Rightarrow> UserState \<times> Outcome" where
  "uploadBookCover_updated s bookId updateReply =
     (if status updateReply \<noteq> 204 \<or> error updateReply \<noteq> None then (s, Returned)
      else if supabase s = None then (s, Threw TypeError)
      else (s, Suspended (AwaitCoverSignedUrl bookId)))"

definition uploadBookCover_signed ::
  "UserState \<Rightarrow> int \<Rightarrow> string option \<Rightarrow> UserState \<times> Outcome" where
  "uploadBookCover_signed s bookId signedUrl =
     (if truthy_string signedUrl
      then (s\<lparr>allBooks :=
                map (\<lambda>book. if id_book book = bookId then book\<lparr>cover_image := signedUrl\<rparr>
                            else book)
                  (allBooks s)\<rparr>,
            Returned)
      else (s, Returned))"

subsection \<open>The object and its suspended calls\<close>

text \<open>
  An instance is the object together with the calls that are suspended at an \<^verbatim>\<open>await\<close>.
  An event is a call of a method by the application, or a reply that resumes the
  suspended call at some position; replies arrive in any order. A reply of a kind that
  the call at that position does not await is no event and changes nothing.
\<close>

record Instance =
  userState :: UserState
  suspended :: "Task list"

datatype Reply =
    QueriesReply "Book list PostgrestResponse" "UserNameRow PostgrestResponse"
  | SignedUrlsReply "nat \<Rightarrow> string option \<Rightarrow> string option"
  | UpdateReply "unit PostgrestResponse"
  | UploadReply "BackendError option"
  | CoverSignedUrlReply "string option"

datatype Event =
    CallUpdateState UserStateProps
  | CallUpdateBook int UpdateObject
  | CallUploadBookCover int
  | Resume nat Reply

fun suspensions :: "Outcome \<Rightarrow> Task list" where
  "suspensions (Suspended task) = [task]"
| "suspensions Returned = []"
| "suspensions (Threw e) = []"

fun resume :: "string \<Rightarrow> UserState \<Rightarrow> Task \<Rightarrow> Reply \<Rightarrow> (UserState \<times> Outcome) option" where
  "resume url s (AwaitQueries userId) (QueriesReply booksResponse userNamesResponse) =
     Some (fetchUserData_replied s booksResponse userNamesResponse)"
| "resume url s (AwaitSignedUrls books row client) (SignedUrlsReply createSignedUrl) =
     Some (fetchUserData_signed url s books row client createSignedUrl)"
| "resume url s (AwaitUpdate bookId updateObject) (UpdateReply reply) =
     Some (updateBook_replied s bookId updateObject reply)"
| "resume url s (AwaitUpload bookId) (UploadReply uploadError) =
     Some (uploadBookCover_uploaded s bookId uploadError)"
| "resume url s (AwaitCoverUpdate bookId) (UpdateReply updateReply) =
     Some (uploadBookCover_updated s bookId updateReply)"
| "resume url s (AwaitCoverSignedUrl bookId) (CoverSignedUrlReply signedUrl) =
     Some (uploadBookCover_signed s bookId signedUrl)"
| "resume url s task reply = None"

definition call :: "Instance \<Rightarrow> UserState \<times> Outcome \<Rightarrow> Instance" where
  "call \<sigma> ended = \<lparr>userState = fst ended, suspended = suspended \<sigma> @ suspensions (snd ended)\<rparr>"

definition step :: "string \<Rightarrow> Instance \<Rightarrow> Event \<Rightarrow> Instance" where
  "step PUBLIC_SUPABASE_URL \<sigma> event =
     (case event of
        CallUpdateState props \<Rightarrow> call \<sigma> (updateState (userState \<sigma>) props)
      | CallUpdateBook bookId updateObject \<Rightarrow>
          call \<sigma> (updateBook_call (userState \<sigma>) bookId updateObject)
      | CallUploadBookCover bookId \<Rightarrow> call \<sigma> (uploadBookCover (userState \<sigma>) bookId)
      | Resume i reply \<Rightarrow>
          (case element (suspended \<sigma>) i of
             None \<Rightarrow> \<sigma>
           | Some task \<Rightarrow>
               (case resume PUBLIC_SUPABASE_URL (userState \<sigma>) task reply of
                  None \<Rightarrow> \<sigma>
                | Some ended \<Rightarrow>
                    \<lparr>userState = fst ended,
                     suspended =
                       take i (suspended \<sigma>) @ suspensions (snd ended) @
                       drop (Suc i) (suspended \<sigma>)\<rparr>)))"

text \<open>The constructor, and a session after a sequence of events.\<close>

definition new_UserState :: "UserStateProps \<Rightarrow> Instance" where
  "new_UserState props =
     call \<lparr>userState = initialState, suspended = []\<rparr> (updateState initialState props)"

definition run :: "string \<Rightarrow> Instance \<Rightarrow> Event list \<Rightarrow> Instance" where
  "run PUBLIC_SUPABASE_URL \<sigma> events = foldl (step PUBLIC_SUPABASE_URL) \<sigma> events"

section \<open>Notions of the specification\<close>

subsection \<open>The genre tokens\<close>

text \<open>
  The tokens of a book, in the words of the specification: its genre string split on
  commas, each piece trimmed, the empty ones dropped; a book without a genre has none.
  \<open>allTokens\<close> lists them across all books, in order, and \<open>firstSeen\<close> is the position
  at which a token first occurs.
\<close>

definition tokensOfBook :: "Book \<Rightarrow> string list" where
  "tokensOfBook book =
     (case genre book of
        None \<Rightarrow> []
      | Some g \<Rightarrow> filter (\<lambda>token. token \<noteq> []) (map trim (split_string g '','')))"

definition allTokens :: "UserState \<Rightarrow> string list" where
  "allTokens s = concat (map tokensOfBook (allBooks s))"




subsection \<open>Ownership of the books across the events\<close>









section \<open>Example inputs\<close>

subsection \<open>Books and states\<close>

definition exampleBook ::
  "int \<Rightarrow> string \<Rightarrow> string option \<Rightarrow> int option \<Rightarrow> string option \<Rightarrow> string \<Rightarrow> Book" where
  "exampleBook i owner g r started created =
     \<lparr>author = None, cover_image = None, created_at = created, description = None,
      finished_reading_on = None, genre = g, id_book = i, rating = r,
      started_reading_on = started, title = ''Title'', user_id = owner\<rparr>"

definition exampleState :: "Book list \<Rightarrow> UserState" where
  "exampleState books =
     \<lparr>session = None, supabase = Some SupabaseClient, user = Some \<lparr>id_user = ''u1''\<rparr>,
      allBooks = books, userName = Some ''Ann''\<rparr>"

definition ratedBooks :: "Book list" where
  "ratedBooks =
     [exampleBook 1 ''u1'' None (Some 3) None ''2024-01-01'',
      exampleBook 2 ''u1'' None (Some 0) None ''2024-01-02'',
      exampleBook 3 ''u1'' None None None ''2024-01-03'',
      exampleBook 4 ''u1'' None (Some 5) None ''2024-01-04'']"






definition genreBooks :: "Book list" where
  "genreBooks =
     [exampleBook 1 ''u1'' (Some ''Sci-Fi, Drama'') None None ''2024-01-01'',
      exampleBook 2 ''u1'' (Some ''Sci-Fi'') (Some 4) None ''2024-01-02'',
      exampleBook 3 ''u1'' (Some ''Poetry'') (Some 5) None ''2024-01-03'']"

definition tokenlessBooks :: "Book list" where
  "tokenlessBooks =
     [exampleBook 1 ''u1'' None (Some 3) None ''2024-01-01'',
      exampleBook 2 ''u1'' (Some '' , ,'') None None ''2024-01-02'',
      exampleBook 3 ''u1'' (Some '''') None None ''2024-01-03'']"

subsection \<open>Updates and replies\<close>

text \<open>The update object \<^verbatim>\<open>{}\<close>; \<^verbatim>\<open>{rating: 5}\<close> sets its \<open>upd_rating\<close>.\<close>

definition emptyUpdate :: UpdateObject where
  "emptyUpdate =
     \<lparr>upd_author = None, upd_cover_image = None, upd_description = None,
      upd_finished_reading_on = None, upd_genre = None, upd_rating = None,
      upd_started_reading_on = None, upd_title = None\<rparr>"

definition noContent :: "unit PostgrestResponse" where
  "noContent = \<lparr>error = None, data = None, status = 204\<rparr>"


definition exampleProps :: "string \<Rightarrow> UserStateProps" where
  "exampleProps uid =
     \<lparr>props_session = Some (Session ''token''), props_supabase = Some SupabaseClient,
      props_user = Some \<lparr>id_user = uid\<rparr>\<rparr>"

definition booksOf :: "Book list \<Rightarrow> Book list PostgrestResponse" where
  "booksOf books = \<lparr>error = None, data = Some books, status = 200\<rparr>"

definition booksFailed :: "Book list PostgrestResponse" where
  "booksFailed = \<lparr>error = Some (BackendError ''timeout''), data = None, status = 500\<rparr>"

definition nameOf :: "string \<Rightarrow> UserNameRow PostgrestResponse" where
  "nameOf n = \<lparr>error = None, data = Some \<lparr>name = Some n\<rparr>, status = 200\<rparr>"

definition nameFailed :: "UserNameRow PostgrestResponse" where
  "nameFailed = \<lparr>error = Some (BackendError ''no rows''), data = None, status = 406\<rparr>"

definition noSignedUrl :: "nat \<Rightarrow> string option \<Rightarrow> string option" where
  "noSignedUrl i filePath = None"

subsection \<open>Sessions\<close>



definition failedRefresh :: "Event list" where
  "failedRefresh =
     [Resume 0 (QueriesReply (booksOf ratedBooks) (nameOf ''Ann'')),
      Resume 0 (SignedUrlsReply noSignedUrl),
      CallUpdateState (exampleProps ''u2''),
      Resume 0 (QueriesReply booksFailed (nameOf ''Bob''))]"



section \<open>Properties of the sort\<close>

lemma set_insertSorted: "set (insertSorted cmp x ys) = insert x (set ys)"
  by (induction ys) auto

lemma set_toSorted: "set (toSorted cmp xs) = set xs"
  by (induction xs) (auto simp: set_insertSorted)



text \<open>A comparator that subtracts keys, \<open>cmp a z = key z - key a\<close>, sorts by descending key.\<close>

lemma sorted_insertSorted_key:
  fixes key :: "'a \<Rightarrow> int"
  assumes "sorted_wrt (\<lambda>a z. key z \<le> key a) ys"
  shows "sorted_wrt (\<lambda>a z. key z \<le> key a) (insertSorted (\<lambda>a z. key z - key a) x ys)"
  using assms by (induction ys) (auto simp: set_insertSorted)

lemma sorted_toSorted_key:
  fixes key :: "'a \<Rightarrow> int"
  shows "sorted_wrt (\<lambda>a z. key z \<le> key a) (toSorted (\<lambda>a z. key z - key a) xs)"
  by (induction xs) (auto intro: sorted_insertSorted_key)

lemma sorted_wrt_take: "sorted_wrt R xs \<Longrightarrow> sorted_wrt R (take n xs)"
  by (induction xs arbitrary: n) (auto simp: take_Cons' dest: in_set_takeD)

section \<open>The top-rated view\<close>

lemma truthy_number_iff: "truthy_number v \<longleftrightarrow> (\<exists>n. v = Some n \<and> n \<noteq> 0)"
  by (cases v) (simp_all add: truthy_number_def)

lemma getHighestRatedBooks_truthy:
  "book \<in> set (getHighestRatedBooks s) \<Longrightarrow> truthy_number (rating book)"
  unfolding getHighestRatedBooks_def
  by (auto dest!: in_set_takeD simp: set_toSorted)

lemma getHighestRatedBooks_example:
  "map id_book (getHighestRatedBooks (exampleState ratedBooks)) = [4, 1]"
  by (simp add: getHighestRatedBooks_def exampleState_def ratedBooks_def exampleBook_def
      truthy_number_def toNumber_def)

text \<open>
  C4. For every books list, \<^verbatim>\<open>getHighestRatedBooks\<close> returns at most 9 books, every
  returned book has a rating that is not \<^verbatim>\<open>null\<close>, and the returned books are in
  descending order of rating: of two returned books the earlier one has the greater or
  equal rating.
\<close>

theorem getHighestRatedBooks_at_most_9_rated_descending:
  "length (getHighestRatedBooks s) \<le> 9 \<and>
   (\<forall>book \<in> set (getHighestRatedBooks s). rating book \<noteq> None) \<and>
   sorted_wrt (\<lambda>a z. \<exists>ra rz. rating a = Some ra \<and> rating z = Some rz \<and> rz \<le> ra)
     (getHighestRatedBooks s)"
proof (intro conjI ballI)
  show "length (getHighestRatedBooks s) \<le> 9"
    by (simp add: getHighestRatedBooks_def)
next
  fix book assume "book \<in> set (getHighestRatedBooks s)"
  then have "truthy_number (rating book)" by (rule getHighestRatedBooks_truthy)
  then show "rating book \<noteq> None" by (auto simp: truthy_number_iff)
next
  let ?key = "\<lambda>book. toNumber (rating book)"
  have "sorted_wrt (\<lambda>a z. ?key z \<le> ?key a) (getHighestRatedBooks s)"
    unfolding getHighestRatedBooks_def
    by (intro sorted_wrt_take sorted_toSorted_key)
  moreover have "\<exists>ra rz. rating a = Some ra \<and> rating z = Some rz \<and> rz \<le> ra"
    if "a \<in> set (getHighestRatedBooks s)" "z \<in> set (getHighestRatedBooks s)" "?key z \<le> ?key a"
    for a z
    using that getHighestRatedBooks_truthy[of a s] getHighestRatedBooks_truthy[of z s]
    by (auto simp: truthy_number_iff toNumber_def)
  ultimately show
    "sorted_wrt (\<lambda>a z. \<exists>ra rz. rating a = Some ra \<and> rating z = Some rz \<and> rz \<le> ra)
       (getHighestRatedBooks s)"
    by (rule sorted_wrt_mono_rel[rotated])
qed

theorem getHighestRatedBooks_at_most_9_rated_descending_witness:
  "map id_book (getHighestRatedBooks (exampleState ratedBooks)) = [4, 1] \<and>
   length (getHighestRatedBooks (exampleState ratedBooks)) \<le> 9 \<and>
   list_all (\<lambda>book. rating book \<noteq> None) (getHighestRatedBooks (exampleState ratedBooks)) \<and>
   sorted_wrt (\<lambda>a z. \<exists>ra rz. rating a = Some ra \<and> rating z = Some rz \<and> rz \<le> ra)
     (getHighestRatedBooks (exampleState ratedBooks))"
  using getHighestRatedBooks_at_most_9_rated_descending [of "exampleState ratedBooks"]
    getHighestRatedBooks_example
  by (simp add: list_all_iff)

text \<open>
  C10. For every books list, a book whose rating is exactly \<^verbatim>\<open>0\<close> is never in the
  result of \<^verbatim>\<open>getHighestRatedBooks\<close>: the filter keeps the truthy ratings only.
\<close>

theorem getHighestRatedBooks_excludes_rating_0:
  "\<forall>book \<in> set (getHighestRatedBooks s). rating book \<noteq> Some 0"
proof
  fix book assume "book \<in> set (getHighestRatedBooks s)"
  then have "truthy_number (rating book)" by (rule getHighestRatedBooks_truthy)
  then show "rating book \<noteq> Some 0" by (auto simp: truthy_number_iff)
qed

theorem getHighestRatedBooks_excludes_rating_0_witness:
  "rating (ratedBooks ! 1) = Some 0 \<and> ratedBooks ! 1 \<in> set (allBooks (exampleState ratedBooks)) \<and>
   ratedBooks ! 1 \<notin> set (getHighestRatedBooks (exampleState ratedBooks))"
  using getHighestRatedBooks_excludes_rating_0 [of "exampleState ratedBooks"]
  by (auto simp: exampleState_def ratedBooks_def exampleBook_def)

section \<open>The unread view\<close>

lemma truthy_string_iff: "truthy_string v \<longleftrightarrow> (\<exists>str. v = Some str \<and> str \<noteq> [])"
  by (cases v) (simp_all add: truthy_string_def)










section \<open>Refresh\<close>

lemma resume_QueriesReply_failed:
  assumes "error booksResponse \<noteq> None \<or> data booksResponse = None \<or>
           error userNamesResponse \<noteq> None \<or> data userNamesResponse = None"
    and "resume url s task (QueriesReply booksResponse userNamesResponse) = Some ended"
  shows "ended = (s, Returned)"
  using assms by (cases task) (auto simp: fetchUserData_replied_def)

text \<open>
  C1. For every prior state and every identity, if either of the two fetches of a
  refresh returns an error or no data, the refresh leaves the books list and the
  display name as they were. \<^verbatim>\<open>updateState\<close> itself assigns neither; when the two
  replies arrive, in whatever state the object is by then and whatever other calls are
  suspended, \<^verbatim>\<open>fetchUserData\<close> returns and leaves every field as it is, so neither
  fetched result is applied; and so the books list and the display name after the
  refresh and its replies are those before it.
\<close>

theorem refresh_failure_keeps_books_and_userName:
  assumes "error booksResponse \<noteq> None \<or> data booksResponse = None \<or>
           error userNamesResponse \<noteq> None \<or> data userNamesResponse = None"
  shows "fetchUserData_replied s booksResponse userNamesResponse = (s, Returned) \<and>
         userState (step url \<sigma> (Resume i (QueriesReply booksResponse userNamesResponse))) =
           userState \<sigma> \<and>
         allBooks (fst (updateState s props)) = allBooks s \<and>
         userName (fst (updateState s props)) = userName s \<and>
         allBooks (fst (fetchUserData_replied (fst (updateState s props))
                          booksResponse userNamesResponse)) = allBooks s \<and>
         userName (fst (fetchUserData_replied (fst (updateState s props))
                          booksResponse userNamesResponse)) = userName s"
proof -
  have failed: "fetchUserData_replied s' booksResponse userNamesResponse = (s', Returned)" for s'
    using assms by (simp add: fetchUserData_replied_def)
  have "userState (step url \<sigma> (Resume i (QueriesReply booksResponse userNamesResponse))) =
      userState \<sigma>"
  proof (cases "element (suspended \<sigma>) i")
    case None
    then show ?thesis by (simp add: step_def)
  next
    case (Some task)
    show ?thesis
    proof (cases "resume url (userState \<sigma>) task (QueriesReply booksResponse userNamesResponse)")
      case None
      with Some show ?thesis by (simp add: step_def)
    next
      case ended: (Some ended)
      from resume_QueriesReply_failed[OF assms ended] have "fst ended = userState \<sigma>" by simp
      with Some ended show ?thesis by (simp add: step_def)
    qed
  qed
  moreover have "allBooks (fst (updateState s props)) = allBooks s"
    "userName (fst (updateState s props)) = userName s"
    by (simp_all add: updateState_def fetchUserData_def split: option.splits)
  ultimately show ?thesis
    by (simp add: failed)
qed

theorem refresh_failure_keeps_books_and_userName_witness:
  "fetchUserData_replied (exampleState ratedBooks) booksFailed (nameOf ''Bob'') =
     (exampleState ratedBooks, Returned) \<and>
   fetchUserData_replied (exampleState ratedBooks) (booksOf []) nameFailed =
     (exampleState ratedBooks, Returned) \<and>
   allBooks (fst (fetchUserData_replied (fst (updateState (exampleState ratedBooks) (exampleProps ''u2'')))
      booksFailed (nameOf ''Bob''))) = ratedBooks \<and>
   userName (fst (fetchUserData_replied (fst (updateState (exampleState ratedBooks) (exampleProps ''u2'')))
      booksFailed (nameOf ''Bob''))) = Some ''Ann'' \<and>
   allBooks (fst (fetchUserData_replied (fst (updateState (exampleState ratedBooks) (exampleProps ''u2'')))
      (booksOf []) nameFailed)) = ratedBooks \<and>
   userName (fst (fetchUserData_replied (fst (updateState (exampleState ratedBooks) (exampleProps ''u2'')))
      (booksOf []) nameFailed)) = Some ''Ann'' \<and>
   userState (run ''https://db.example'' (new_UserState (exampleProps ''u1'')) failedRefresh) =
     userState (run ''https://db.example'' (new_UserState (exampleProps ''u1'')) (butlast failedRefresh))"
proof -
  have books: "error booksFailed \<noteq> None \<or> data booksFailed = None \<or>
      error (nameOf ''Bob'') \<noteq> None \<or> data (nameOf ''Bob'') = None"
    by (simp add: booksFailed_def)
  have names: "error (booksOf []) \<noteq> None \<or> data (booksOf []) = None \<or>
      error nameFailed \<noteq> None \<or> data nameFailed = None"
    by (simp add: nameFailed_def)
  have run: "run ''https://db.example'' (new_UserState (exampleProps ''u1'')) failedRefresh =
      step ''https://db.example''
        (run ''https://db.example'' (new_UserState (exampleProps ''u1'')) (butlast failedRefresh))
        (Resume 0 (QueriesReply booksFailed (nameOf ''Bob'')))"
    by (simp add: run_def failedRefresh_def)
  from refresh_failure_keeps_books_and_userName
    [OF books, of "exampleState ratedBooks" "''https://db.example''"
      "run ''https://db.example'' (new_UserState (exampleProps ''u1'')) (butlast failedRefresh)" 0
      "exampleProps ''u2''"]
    refresh_failure_keeps_books_and_userName
    [OF names, of "exampleState ratedBooks" "''https://db.example''"
      "run ''https://db.example'' (new_UserState (exampleProps ''u1'')) (butlast failedRefresh)" 0
      "exampleProps ''u2''"]
  show ?thesis
    unfolding run by (simp add: exampleState_def)
qed

section \<open>\<^verbatim>\<open>updateBook\<close>\<close>

lemma find_map_update:
  "find (\<lambda>book. id_book book = bookId)
     (map (\<lambda>book. if id_book book = bookId then f book else book) books) =
   map_option f (find (\<lambda>book. id_book book = bookId) books)"
  if "\<And>book. id_book (f book) = id_book book"
  using that by (induction books) auto

lemma spread_rating_only:
  "spread book (emptyUpdate\<lparr>upd_rating := Some r\<rparr>) = book\<lparr>rating := r\<rparr>"
  by (simp add: spread_def emptyUpdate_def)

text \<open>
  \<^verbatim>\<open>updateBook\<close> from the call to the end is the call followed at once by the
  continuation on the reply.
\<close>

lemma updateBook_pieces:
  "updateBook s bookId updateObject reply =
     (case snd (updateBook_call s bookId updateObject) of
        Suspended task \<Rightarrow>
          fst (updateBook_replied (fst (updateBook_call s bookId updateObject)) bookId
                 updateObject reply)
      | Returned \<Rightarrow> fst (updateBook_call s bookId updateObject)
      | Threw e \<Rightarrow> fst (updateBook_call s bookId updateObject))"
  by (simp add: updateBook_def updateBook_call_def updateBook_replied_def)

text \<open>
  C2. For every books list containing a book with id \<open>bookId\<close>, if the backend's reply
  to \<^verbatim>\<open>updateBook(bookId, {rating: 5})\<close> has status 204 and no error, then afterwards
  \<^verbatim>\<open>getBookById(bookId)\<close> is the book it was before with \<^verbatim>\<open>rating\<close> 5 and every other
  field as before; the list keeps its length and order, and every book with another id
  is unchanged. (The backend replies only when there is a client.)
\<close>

theorem updateBook_rating_5_no_content:
  assumes "supabase s \<noteq> None"
    and "status reply = 204" and "error reply = None"
    and "getBookById s bookId = Some old"
  shows "getBookById (updateBook s bookId (emptyUpdate\<lparr>upd_rating := Some (Some 5)\<rparr>) reply) bookId =
           Some (old\<lparr>rating := Some 5\<rparr>) \<and>
         allBooks (updateBook s bookId (emptyUpdate\<lparr>upd_rating := Some (Some 5)\<rparr>) reply) =
           map (\<lambda>book. if id_book book = bookId then book\<lparr>rating := Some 5\<rparr> else book)
             (allBooks s) \<and>
         (\<forall>i < length (allBooks s). id_book (allBooks s ! i) \<noteq> bookId \<longrightarrow>
            allBooks (updateBook s bookId (emptyUpdate\<lparr>upd_rating := Some (Some 5)\<rparr>) reply) ! i =
              allBooks s ! i)"
proof -
  let ?s' = "updateBook s bookId (emptyUpdate\<lparr>upd_rating := Some (Some 5)\<rparr>) reply"
  have books: "allBooks ?s' =
      map (\<lambda>book. if id_book book = bookId then book\<lparr>rating := Some 5\<rparr> else book) (allBooks s)"
    using assms(1-3) by (auto simp: updateBook_def spread_rating_only)
  have "getBookById ?s' bookId = map_option (\<lambda>book. book\<lparr>rating := Some 5\<rparr>) (getBookById s bookId)"
    unfolding getBookById_def books by (rule find_map_update) simp
  then have found: "getBookById ?s' bookId = Some (old\<lparr>rating := Some 5\<rparr>)"
    by (simp add: assms(4))
  have others: "allBooks ?s' ! i = allBooks s ! i"
    if "i < length (allBooks s)" "id_book (allBooks s ! i) \<noteq> bookId" for i
    using that by (simp add: books)
  from found books others show ?thesis by blast
qed

theorem updateBook_rating_5_no_content_witness:
  "getBookById (exampleState ratedBooks) 1 = Some (exampleBook 1 ''u1'' None (Some 3) None ''2024-01-01'') \<and>
   getBookById (updateBook (exampleState ratedBooks) 1 (emptyUpdate\<lparr>upd_rating := Some (Some 5)\<rparr>)
      noContent) 1 = Some (exampleBook 1 ''u1'' None (Some 5) None ''2024-01-01'') \<and>
   allBooks (updateBook (exampleState ratedBooks) 1 (emptyUpdate\<lparr>upd_rating := Some (Some 5)\<rparr>)
      noContent) = exampleBook 1 ''u1'' None (Some 5) None ''2024-01-01'' # tl ratedBooks"
proof -
  have found: "getBookById (exampleState ratedBooks) 1 =
      Some (exampleBook 1 ''u1'' None (Some 3) None ''2024-01-01'')"
    by (simp add: getBookById_def exampleState_def ratedBooks_def exampleBook_def)
  have "supabase (exampleState ratedBooks) \<noteq> None" "status noContent = 204" "error noContent = None"
    by (simp_all add: exampleState_def noContent_def)
  from updateBook_rating_5_no_content [OF this found] found
  show ?thesis
    by (simp add: exampleState_def ratedBooks_def exampleBook_def)
qed



section \<open>The favorite genre\<close>

lemma countGenre_countToken:
  "countGenre genreCounts g =
     (if trim g = [] then genreCounts else countToken genreCounts (trim g))"
  by (simp add: countGenre_def Let_def)

lemma foldl_countGenre:
  "foldl countGenre genreCounts gs =
     foldl countToken genreCounts (filter (\<lambda>token. token \<noteq> []) (map trim gs))"
  by (induction gs arbitrary: genreCounts) (simp_all add: countGenre_countToken)

lemma split_string_empty: "split_string [] '','' = [[]]"
  by (simp add: split_string_def)

lemma trim_empty: "trim [] = []"
  by (simp add: trim_def)

lemma countBook_tokens: "countBook genreCounts book = foldl countToken genreCounts (tokensOfBook book)"
proof (cases "genre book")
  case None
  then show ?thesis by (simp add: countBook_def tokensOfBook_def)
next
  case (Some g)
  then show ?thesis
    by (cases "g = []")
      (simp_all add: countBook_def tokensOfBook_def foldl_countGenre split_string_empty trim_empty)
qed

lemma foldl_countBook:
  "foldl countBook genreCounts books =
     foldl countToken genreCounts (concat (map tokensOfBook books))"
  by (induction books arbitrary: genreCounts) (simp_all add: countBook_tokens)

lemma genreCounts_allTokens: "foldl countBook [] (allBooks s) = foldl countToken [] (allTokens s)"
  by (simp add: foldl_countBook allTokens_def)

text \<open>
  C9. On a non-empty books list in which no book yields a non-empty trimmed genre token,
  \<^verbatim>\<open>getFavoriteGenre\<close> throws: \<^verbatim>\<open>reduce\<close> is applied to the empty array of keys with no
  initial value. A list whose genres are \<^verbatim>\<open>null\<close>, \<^verbatim>\<open>" , ,"\<close> and \<^verbatim>\<open>""\<close> is such a list.
\<close>

theorem getFavoriteGenre_throws_without_tokens:
  assumes "allBooks s \<noteq> []"
    and "\<forall>book \<in> set (allBooks s). tokensOfBook book = []"
  shows "getFavoriteGenre s = Inl TypeError"
proof -
  have "allTokens s = []"
    using assms(2) by (simp add: allTokens_def)
  then have "foldl countBook [] (allBooks s) = []"
    by (simp add: genreCounts_allTokens)
  then show ?thesis
    using assms(1) by (simp add: getFavoriteGenre_def Object_keys_def)
qed

lemma tokenlessBooks_tokens: "list_all (\<lambda>book. tokensOfBook book = []) tokenlessBooks"
  by (simp add: tokenlessBooks_def exampleBook_def tokensOfBook_def split_string_def trim_def
      isWhiteSpace_def startsWith_def)

theorem getFavoriteGenre_throws_without_tokens_witness:
  "allBooks (exampleState tokenlessBooks) \<noteq> [] \<and>
   list_all (\<lambda>book. tokensOfBook book = []) (allBooks (exampleState tokenlessBooks)) \<and>
   getFavoriteGenre (exampleState tokenlessBooks) = Inl TypeError"
proof -
  have nonempty: "allBooks (exampleState tokenlessBooks) \<noteq> []"
    by (simp add: exampleState_def tokenlessBooks_def)
  have tokenless: "list_all (\<lambda>book. tokensOfBook book = []) (allBooks (exampleState tokenlessBooks))"
    using tokenlessBooks_tokens by (simp add: exampleState_def)
  then have "\<forall>book \<in> set (allBooks (exampleState tokenlessBooks)). tokensOfBook book = []"
    by (simp add: list_all_iff)
  from getFavoriteGenre_throws_without_tokens [OF nonempty this] nonempty tokenless
  show ?thesis by simp
qed

section \<open>The most common genre\<close>

















section \<open>Books of the favorite genre\<close>

lemma startsWith_iff: "startsWith s t \<longleftrightarrow> (\<exists>post. s = t @ post)"
proof
  assume "startsWith s t"
  then have "s = t @ drop (length t) s"
    unfolding startsWith_def by (metis append_take_drop_id)
  then show "\<exists>post. s = t @ post" ..
next
  assume "\<exists>post. s = t @ post"
  then show "startsWith s t" by (auto simp: startsWith_def)
qed

lemma includes_string_iff: "includes_string s t \<longleftrightarrow> (\<exists>pre post. s = pre @ t @ post)"
proof (induction s)
  case Nil
  show ?case by auto
next
  case (Cons c cs)
  show ?case
  proof
    assume "includes_string (c # cs) t"
    then consider "startsWith (c # cs) t" | "includes_string cs t" by auto
    then show "\<exists>pre post. c # cs = pre @ t @ post"
    proof cases
      case 1
      then obtain post where "c # cs = [] @ t @ post" by (auto simp: startsWith_iff)
      then show ?thesis by blast
    next
      case 2
      then obtain pre post where "cs = pre @ t @ post" using Cons.IH by blast
      then have "c # cs = (c # pre) @ t @ post" by simp
      then show ?thesis by blast
    qed
  next
    assume "\<exists>pre post. c # cs = pre @ t @ post"
    then obtain pre post where split: "c # cs = pre @ t @ post" by blast
    show "includes_string (c # cs) t"
    proof (cases pre)
      case Nil
      with split have "startsWith (c # cs) t" by (auto simp: startsWith_iff)
      then show ?thesis by simp
    next
      case (Cons p pre')
      with split have "cs = pre' @ t @ post" by simp
      then have "includes_string cs t" using Cons.IH by blast
      then show ?thesis by simp
    qed
  qed
qed

lemma orZero_toNumber: "orZero v = (case v of None \<Rightarrow> 0 | Some r \<Rightarrow> r)"
  by (simp add: orZero_def split: option.splits)

lemma allTokens_genreBooks:
  "allTokens (exampleState genreBooks) = [''Sci-Fi'', ''Drama'', ''Sci-Fi'', ''Poetry'']"
  by (simp add: allTokens_def exampleState_def genreBooks_def exampleBook_def tokensOfBook_def
      split_string_def trim_def isWhiteSpace_def startsWith_def)

lemma genreCounts_genreBooks:
  "foldl countToken [] [''Sci-Fi'', ''Drama'', ''Sci-Fi'', ''Poetry''] =
     [(''Sci-Fi'', Num 2), (''Drama'', Num 1), (''Poetry'', Num 1)]"
  by (simp add: countToken_def objectPrototypeMethods_def)

lemma Object_keys_genreBooks:
  "Object_keys [(''Sci-Fi'', Num 2), (''Drama'', Num 1), (''Poetry'', Num 1)] =
     [''Sci-Fi'', ''Drama'', ''Poetry'']"
  by (simp add: Object_keys_def isArrayIndex_def isDigit_def)

lemma getFavoriteGenre_genreBooks: "getFavoriteGenre (exampleState genreBooks) = Inr ''Sci-Fi''"
proof -
  have "allBooks (exampleState genreBooks) \<noteq> []"
    by (simp add: exampleState_def genreBooks_def)
  then show ?thesis
    unfolding getFavoriteGenre_def genreCounts_allTokens allTokens_genreBooks
      genreCounts_genreBooks Let_def Object_keys_genreBooks
    by (simp add: moreCommon_def)
qed

text \<open>
  C7. \<^verbatim>\<open>getBooksFromFavoriteGenre\<close> returns whenever \<^verbatim>\<open>getFavoriteGenre\<close> does (and
  throws what it throws). Every book it returns has a genre string that contains the
  favorite genre as a substring, and the returned books are in descending order of
  rating, a \<^verbatim>\<open>null\<close> rating counting as 0.
\<close>

theorem getBooksFromFavoriteGenre_contains_genre_descending:
  "case getFavoriteGenre s of
     Inl e \<Rightarrow> getBooksFromFavoriteGenre s = Inl e
   | Inr favorite \<Rightarrow>
       (\<exists>books. getBooksFromFavoriteGenre s = Inr books \<and>
          (\<forall>book \<in> set books. \<exists>g pre post. genre book = Some g \<and> g = pre @ favorite @ post) \<and>
          sorted_wrt
            (\<lambda>a z. (case rating z of None \<Rightarrow> 0 | Some r \<Rightarrow> r) \<le>
                    (case rating a of None \<Rightarrow> 0 | Some r \<Rightarrow> r))
            books)"
proof (cases "getFavoriteGenre s")
  case (Inl e)
  then show ?thesis by (simp add: getBooksFromFavoriteGenre_def)
next
  case (Inr favorite)
  let ?books = "toSorted (\<lambda>a z. orZero (rating z) - orZero (rating a))
      (filter (\<lambda>book. case genre book of None \<Rightarrow> False | Some g \<Rightarrow> includes_string g favorite)
        (allBooks s))"
  have returned: "getBooksFromFavoriteGenre s = Inr ?books"
    by (simp add: getBooksFromFavoriteGenre_def Inr)
  have contains: "\<exists>g pre post. genre book = Some g \<and> g = pre @ favorite @ post"
    if "book \<in> set ?books" for book
    using that by (auto simp: set_toSorted includes_string_iff split: option.splits)
  have "sorted_wrt (\<lambda>a z. orZero (rating z) \<le> orZero (rating a)) ?books"
    by (rule sorted_toSorted_key)
  then have "sorted_wrt
      (\<lambda>a z. (case rating z of None \<Rightarrow> 0 | Some r \<Rightarrow> r) \<le> (case rating a of None \<Rightarrow> 0 | Some r \<Rightarrow> r))
      ?books"
    by (simp add: orZero_toNumber)
  with returned contains show ?thesis
    by (simp add: Inr)
qed

theorem getBooksFromFavoriteGenre_contains_genre_descending_witness:
  "getFavoriteGenre (exampleState genreBooks) = Inr ''Sci-Fi'' \<and>
   (\<exists>books. getBooksFromFavoriteGenre (exampleState genreBooks) = Inr books \<and>
      map id_book books = [2, 1] \<and>
      list_all (\<lambda>book. \<exists>g pre post. genre book = Some g \<and> g = pre @ ''Sci-Fi'' @ post) books \<and>
      sorted_wrt
        (\<lambda>a z. (case rating z of None \<Rightarrow> 0 | Some r \<Rightarrow> r) \<le>
                (case rating a of None \<Rightarrow> 0 | Some r \<Rightarrow> r))
        books)"
proof -
  have eval: "getBooksFromFavoriteGenre (exampleState genreBooks) = Inr [genreBooks ! 1, genreBooks ! 0]"
    unfolding getBooksFromFavoriteGenre_def getFavoriteGenre_genreBooks
    by (simp add: exampleState_def genreBooks_def exampleBook_def startsWith_def orZero_def)
  have ids: "map id_book [genreBooks ! 1, genreBooks ! 0] = [2, 1]"
    by (simp add: genreBooks_def exampleBook_def)
  from getBooksFromFavoriteGenre_contains_genre_descending [of "exampleState genreBooks"]
  show ?thesis
    unfolding getFavoriteGenre_genreBooks eval using ids
    by (simp add: list_all_iff)
qed

section \<open>Ownership of the books\<close>



























end
